theory Spec2Isabelle
  imports Main "HOL-Library.Sublist"
begin

section \<open>Go values used by the tool\<close>

text \<open>
  The tool is a Go program (package \<open>internal\<close> plus a magefile) that shells out to
  \<open>kind\<close>, \<open>kubectl\<close> and \<open>helm\<close>, polls for readiness, and tracks a background
  \<open>kubectl port-forward\<close> process through a PID file. Go strings are byte strings and
  are modelled as \<open>string\<close> (one \<open>char\<close> per byte); Go's \<open>int\<close> is taken on a 64-bit
  platform and modelled as \<open>int\<close>, with the 64-bit range written out where it matters.
\<close>

subsection \<open>Errors\<close>

datatype num_err = ErrSyntax | ErrRange

text \<open>
  \<open>ErrNotExist\<close> is the error recognised by \<open>os.IsNotExist\<close>; \<open>OSError\<close> is any other
  error handed back by the operating system or by an external command (its text is
  opaque to the program); \<open>NumError f s k\<close> is \<open>strconv\<close>'s error for function \<open>f\<close> on
  input \<open>s\<close>; \<open>Errorf m\<close> is \<open>fmt.Errorf\<close> with the finished message \<open>m\<close>;
  \<open>Wrapf p e\<close> is \<open>fmt.Errorf(p + "%w", e)\<close>.
\<close>

datatype error =
    ErrNotExist
  | OSError string
  | NumError string string num_err
  | Errorf string
  | Wrapf string error

fun error_text :: "error \<Rightarrow> string" where
  "error_text ErrNotExist = ''file does not exist''"
| "error_text (OSError m) = m"
| "error_text (NumError f s ErrSyntax) = ''strconv.'' @ f @ '': parsing '' @ s @ '': invalid syntax''"
| "error_text (NumError f s ErrRange) = ''strconv.'' @ f @ '': parsing '' @ s @ '': value out of range''"
| "error_text (Errorf m) = m"
| "error_text (Wrapf p e) = p @ error_text e"

subsection \<open>strings.TrimSpace\<close>

text \<open>
  \<open>strings.TrimSpace\<close> removes leading and trailing white space as defined by
  Unicode. On a byte string that is every leading and every trailing occurrence of
  the UTF-8 encoding of a white-space code point: the six ASCII ones, U+0085, U+00A0,
  U+1680, U+2000 to U+200A, U+2028, U+2029, U+202F, U+205F and U+3000. A byte that
  does not start such an encoding stops the trimming.
\<close>

definition space_encodings :: "string list" where
  "space_encodings =
     [[CHR 0x09], [CHR 0x0A], [CHR 0x0B], [CHR 0x0C], [CHR 0x0D], [CHR 0x20],
      [CHR 0xC2, CHR 0x85], [CHR 0xC2, CHR 0xA0],
      [CHR 0xE1, CHR 0x9A, CHR 0x80],
      [CHR 0xE2, CHR 0x80, CHR 0x80], [CHR 0xE2, CHR 0x80, CHR 0x81],
      [CHR 0xE2, CHR 0x80, CHR 0x82], [CHR 0xE2, CHR 0x80, CHR 0x83],
      [CHR 0xE2, CHR 0x80, CHR 0x84], [CHR 0xE2, CHR 0x80, CHR 0x85],
      [CHR 0xE2, CHR 0x80, CHR 0x86], [CHR 0xE2, CHR 0x80, CHR 0x87],
      [CHR 0xE2, CHR 0x80, CHR 0x88], [CHR 0xE2, CHR 0x80, CHR 0x89],
      [CHR 0xE2, CHR 0x80, CHR 0x8A],
      [CHR 0xE2, CHR 0x80, CHR 0xA8], [CHR 0xE2, CHR 0x80, CHR 0xA9],
      [CHR 0xE2, CHR 0x80, CHR 0xAF], [CHR 0xE2, CHR 0x81, CHR 0x9F],
      [CHR 0xE3, CHR 0x80, CHR 0x80]]"

text \<open>The byte length of the white-space rune at the front of the string, 0 if none.\<close>

definition space_width :: "string list \<Rightarrow> string \<Rightarrow> nat" where
  "space_width encs s =
     (case List.find (\<lambda>e. prefix e s) encs of None \<Rightarrow> 0 | Some e \<Rightarrow> length e)"

fun trim_front :: "string list \<Rightarrow> string \<Rightarrow> string" where
  "trim_front encs [] = []"
| "trim_front encs (c # cs) =
     (let n = space_width encs (c # cs)
      in if n = 0 then c # cs else trim_front encs (drop (n - 1) cs))"

definition TrimLeftSpace :: "string \<Rightarrow> string" where
  "TrimLeftSpace s = trim_front space_encodings s"

definition TrimRightSpace :: "string \<Rightarrow> string" where
  "TrimRightSpace s = rev (trim_front (map rev space_encodings) (rev s))"

definition TrimSpace :: "string \<Rightarrow> string" where
  "TrimSpace s = TrimRightSpace (TrimLeftSpace s)"

subsection \<open>strconv.Atoi and the \<open>%d\<close> verb\<close>

definition is_digit :: "char \<Rightarrow> bool" where
  "is_digit c = ((of_char (CHR ''0'') :: int) \<le> of_char c \<and> (of_char c :: int) \<le> of_char (CHR ''9''))"

definition digit_val :: "char \<Rightarrow> int" where
  "digit_val c = of_char c - of_char (CHR ''0'')"

text \<open>
  \<open>strconv.ParseUint(s, 10, 64)\<close> on a non-empty string: digits are consumed left to
  right; a byte that is no digit is a syntax error, a value of \<open>2^64\<close> or more a range
  error, whichever comes first.
\<close>

fun parse_digits :: "int \<Rightarrow> string \<Rightarrow> num_err + int" where
  "parse_digits acc [] = Inr acc"
| "parse_digits acc (c # cs) =
     (if \<not> is_digit c then Inl ErrSyntax
      else if 2 ^ 64 \<le> acc * 10 + digit_val c then Inl ErrRange
      else parse_digits (acc * 10 + digit_val c) cs)"

text \<open>
  \<open>strconv.Atoi\<close>: an optional sign, then at least one decimal digit, nothing else;
  the value must fit Go's 64-bit \<open>int\<close>. The short-input fast path of the library
  computes the same result.
\<close>

definition Atoi :: "string \<Rightarrow> error + int" where
  "Atoi s =
     (let neg = (s \<noteq> [] \<and> hd s = CHR ''-'');
          ds = (if s \<noteq> [] \<and> (hd s = CHR ''-'' \<or> hd s = CHR ''+'') then tl s else s)
      in if ds = [] then Inl (NumError ''Atoi'' s ErrSyntax)
         else case parse_digits 0 ds of
             Inl k \<Rightarrow> Inl (NumError ''Atoi'' s k)
           | Inr un \<Rightarrow>
               if \<not> neg \<and> 2 ^ 63 \<le> un then Inl (NumError ''Atoi'' s ErrRange)
               else if neg \<and> 2 ^ 63 < un then Inl (NumError ''Atoi'' s ErrRange)
               else Inr (if neg then - un else un))"

definition digit_char :: "int \<Rightarrow> char" where
  "digit_char d = char_of (of_char (CHR ''0'') + d)"

text \<open>The decimal digits of a number that is not negative, most significant first.\<close>

function decimal :: "int \<Rightarrow> string" where
  "decimal n = (if n < 10 then [digit_char n] else decimal (n div 10) @ [digit_char (n mod 10)])"
  by pat_completeness auto
termination
  by (relation "measure nat") auto

declare decimal.simps [simp del]

text \<open>\<open>fmt.Sprintf("%d", n)\<close>.\<close>

definition Itoa :: "int \<Rightarrow> string" where
  "Itoa n = (if n < 0 then CHR ''-'' # decimal (- n) else decimal n)"

subsection \<open>strings.Split, strings.Join, strings.Contains\<close>

text \<open>\<open>strings.Split(s, sep)\<close> for a one-byte separator; the result is never empty.\<close>

fun split_on :: "char \<Rightarrow> string \<Rightarrow> string list" where
  "split_on sep [] = [[]]"
| "split_on sep (c # cs) =
     (if c = sep then [] # split_on sep cs
      else (case split_on sep cs of [] \<Rightarrow> [[c]] | x # xs \<Rightarrow> (c # x) # xs))"

fun strings_Join :: "string list \<Rightarrow> string \<Rightarrow> string" where
  "strings_Join [] sep = []"
| "strings_Join [x] sep = x"
| "strings_Join (x # y # ys) sep = x @ sep @ strings_Join (y # ys) sep"

fun strings_Contains :: "string \<Rightarrow> string \<Rightarrow> bool" where
  "strings_Contains [] substr = (substr = [])"
| "strings_Contains (c # cs) substr = (prefix substr (c # cs) \<or> strings_Contains cs substr)"

subsection \<open>filepath.Join\<close>

text \<open>
  \<open>filepath.Clean\<close> on a Unix path: empty and \<open>.\<close> elements are dropped, a \<open>..\<close>
  element removes the element before it (at the root it is dropped, at the front of
  a relative path it is kept), and the empty result is \<open>.\<close>. The elements seen so far
  are kept newest first.
\<close>

definition clean_step :: "bool \<Rightarrow> string list \<Rightarrow> string \<Rightarrow> string list" where
  "clean_step rooted st el =
     (if el = [] \<or> el = ''.'' then st
      else if el = ''..'' then
        (case st of
           [] \<Rightarrow> if rooted then [] else [''..'']
         | prev # rest \<Rightarrow> if prev = ''..'' then ''..'' # st else rest)
      else el # st)"

definition filepath_Clean :: "string \<Rightarrow> string" where
  "filepath_Clean path =
     (if path = [] then ''.''
      else
        let rooted = (hd path = CHR ''/'');
            st = foldl (clean_step rooted) [] (split_on (CHR ''/'') path);
            out = (if rooted then ''/'' else []) @ strings_Join (rev st) ''/''
        in if out = [] then ''.'' else out)"

text \<open>\<open>filepath.Join\<close>: leading empty elements are ignored, the rest is joined and cleaned.\<close>

definition filepath_Join :: "string list \<Rightarrow> string" where
  "filepath_Join elem =
     (case dropWhile (\<lambda>e. e = []) elem of
        [] \<Rightarrow> []
      | es \<Rightarrow> filepath_Clean (strings_Join es ''/''))"

section \<open>The operating system as seen by the port-forward manager\<close>

text \<open>
  The port-forward functions act on files and processes only through a handful of
  library calls. The state they act on is a record: the regular files with their
  contents, the live processes, and for every call whose error the program inspects
  the conditions under which the system refuses it. The functions are deterministic
  in this state; a transient failure is a state in which the refusal is present for
  one call and gone for the next.

  \<^item> \<open>data_home\<close> is the value of \<open>xdg.DataHome\<close>.
  \<^item> \<open>files\<close> maps the path of each existing regular file to its contents.
  \<^item> \<open>path_err\<close> gives the error that every access to a path meets (a parent
    directory that cannot be searched, say); \<open>read_err\<close>, \<open>write_err\<close> and
    \<open>mkdir_err\<close> give the error of \<open>os.ReadFile\<close>, \<open>os.WriteFile\<close> and
    \<open>os.MkdirAll\<close> on a path.
  \<^item> \<open>procs\<close> is the set of process ids that accept the null signal.
  \<^item> \<open>kill_err\<close> gives the error of \<open>syscall.Kill\<close> by its first argument (a
    negative number addresses a process group).
  \<^item> \<open>spawn\<close> is the outcome of starting a command: an error, or the id of the
    new process.
  \<^item> \<open>signals\<close> lists the signals delivered so far, oldest first, as pairs of
    target and signal number.

  Directories are not tracked: the program never lists or tests one, so the only
  thing it observes of \<open>os.MkdirAll\<close> is the error. The errors of \<open>os.Remove\<close> and
  of \<open>Process.Kill\<close> are discarded by the program; the model takes both calls to do
  what their documentation says. Text printed to the terminal is left out.
\<close>

record world =
  data_home :: string
  files :: "string \<rightharpoonup> string"
  path_err :: "string \<rightharpoonup> error"
  read_err :: "string \<rightharpoonup> error"
  write_err :: "string \<rightharpoonup> error"
  mkdir_err :: "string \<rightharpoonup> error"
  procs :: "int set"
  kill_err :: "int \<rightharpoonup> error"
  spawn :: "string list \<Rightarrow> error + int"
  signals :: "(int \<times> int) list"


definition SIGKILL :: int where "SIGKILL = 9"

definition os_Stat :: "world \<Rightarrow> string \<Rightarrow> error option" where
  "os_Stat w path =
     (case path_err w path of
        Some e \<Rightarrow> Some e
      | None \<Rightarrow> (case files w path of None \<Rightarrow> Some ErrNotExist | Some c \<Rightarrow> None))"

definition os_IsNotExist :: "error option \<Rightarrow> bool" where
  "os_IsNotExist err = (err = Some ErrNotExist)"

definition os_ReadFile :: "world \<Rightarrow> string \<Rightarrow> error + string" where
  "os_ReadFile w path =
     (case path_err w path of
        Some e \<Rightarrow> Inl e
      | None \<Rightarrow>
         (case read_err w path of
            Some e \<Rightarrow> Inl e
          | None \<Rightarrow> (case files w path of None \<Rightarrow> Inl ErrNotExist | Some c \<Rightarrow> Inr c)))"

definition os_WriteFile :: "world \<Rightarrow> string \<Rightarrow> string \<Rightarrow> error option \<times> world" where
  "os_WriteFile w path data =
     (case path_err w path of
        Some e \<Rightarrow> (Some e, w)
      | None \<Rightarrow>
         (case write_err w path of
            Some e \<Rightarrow> (Some e, w)
          | None \<Rightarrow> (None, w\<lparr>files := (files w)(path \<mapsto> data)\<rparr>)))"

definition os_Remove :: "world \<Rightarrow> string \<Rightarrow> world" where
  "os_Remove w path = w\<lparr>files := (files w)(path := None)\<rparr>"

definition os_MkdirAll :: "world \<Rightarrow> string \<Rightarrow> error option \<times> world" where
  "os_MkdirAll w path = (mkdir_err w path, w)"

text \<open>On Unix \<open>os.FindProcess\<close> always succeeds; the handle is the process id.\<close>

definition os_FindProcess :: "world \<Rightarrow> int \<Rightarrow> error + int" where
  "os_FindProcess w pid = Inr pid"

text \<open>\<open>process.Signal(syscall.Signal(0))\<close>: the null signal probes for existence.\<close>

definition Process_Signal0 :: "world \<Rightarrow> int \<Rightarrow> error option" where
  "Process_Signal0 w process =
     (if process \<in> procs w then None else Some (OSError ''os: process already finished''))"

text \<open>\<open>Process.Kill\<close> makes the process exit at once.\<close>

definition Process_Kill :: "world \<Rightarrow> int \<Rightarrow> world" where
  "Process_Kill w process =
     w\<lparr>procs := procs w - {process}, signals := signals w @ [(process, SIGKILL)]\<rparr>"


text \<open>\<open>cmd.Start\<close> with \<open>Setsid\<close>: the child, if any, is a live process of its own session.\<close>

definition cmd_Start :: "world \<Rightarrow> string list \<Rightarrow> (error + int) \<times> world" where
  "cmd_Start w argv =
     (case spawn w argv of
        Inl e \<Rightarrow> (Inl e, w)
      | Inr pid \<Rightarrow> (Inr pid, w\<lparr>procs := insert pid (procs w)\<rparr>))"


section \<open>The port-forward manager\<close>

definition PortForwardPIDFile :: "world \<Rightarrow> string \<Rightarrow> string \<Rightarrow> string" where
  "PortForwardPIDFile w service namespace =
     filepath_Join [data_home w, ''kargo'',
       ''port-forward-'' @ service @ ''-'' @ namespace @ ''.pid'']"

text \<open>The three results of \<open>IsPortForwardRunning\<close> are returned as a triple, with the state after the call.\<close>

definition IsPortForwardRunning ::
  "world \<Rightarrow> string \<Rightarrow> string \<Rightarrow> (bool \<times> int \<times> error option) \<times> world" where
  "IsPortForwardRunning w service namespace =
     (let pidFile = PortForwardPIDFile w service namespace
      in if os_IsNotExist (os_Stat w pidFile) then ((False, 0, None), w)
         else
           case os_ReadFile w pidFile of
             Inl err \<Rightarrow> ((False, 0, Some (Wrapf ''failed to read PID file: '' err)), w)
           | Inr pidBytes \<Rightarrow>
              (case Atoi (TrimSpace pidBytes) of
                 Inl err \<Rightarrow> ((False, 0, Some (Wrapf ''failed to parse PID: '' err)), w)
               | Inr pid \<Rightarrow>
                  (case os_FindProcess w pid of
                     Inl err \<Rightarrow> ((False, 0, None), w)
                   | Inr process \<Rightarrow>
                      (case Process_Signal0 w process of
                         Some err \<Rightarrow> ((False, 0, None), os_Remove w pidFile)
                       | None \<Rightarrow> ((True, pid, None), w)))))"

definition port_forward_argv :: "string \<Rightarrow> string \<Rightarrow> int \<Rightarrow> int \<Rightarrow> string list" where
  "port_forward_argv service namespace localPort remotePort =
     [''kubectl'', ''port-forward'', ''svc/'' @ service,
      Itoa localPort @ '':'' @ Itoa remotePort, ''--namespace'', namespace]"

definition StartPortForward ::
  "world \<Rightarrow> string \<Rightarrow> string \<Rightarrow> int \<Rightarrow> int \<Rightarrow> (int \<times> error option) \<times> world" where
  "StartPortForward w service namespace localPort remotePort =
     (let kargoDir = filepath_Join [data_home w, ''kargo'']
      in case os_MkdirAll w kargoDir of
           (Some err, w1) \<Rightarrow>
             ((0, Some (Wrapf ''failed to create kargo data directory: '' err)), w1)
         | (None, w1) \<Rightarrow>
            (case cmd_Start w1 (port_forward_argv service namespace localPort remotePort) of
               (Inl err, w2) \<Rightarrow> ((0, Some (Wrapf ''failed to start port-forward: '' err)), w2)
             | (Inr pid, w2) \<Rightarrow>
                (let pidFile = PortForwardPIDFile w2 service namespace
                 in case os_WriteFile w2 pidFile (Itoa pid) of
                      (Some err, w3) \<Rightarrow>
                        ((0, Some (Wrapf ''failed to save PID file: '' err)), Process_Kill w3 pid)
                    | (None, w3) \<Rightarrow> ((pid, None), w3))))"



text \<open>The error, if any, that \<open>os.WriteFile\<close> meets on a path.\<close>

definition write_refusal :: "world \<Rightarrow> string \<Rightarrow> error option" where
  "write_refusal w path = (case path_err w path of Some e \<Rightarrow> Some e | None \<Rightarrow> write_err w path)"

section \<open>External commands, existence checks and readiness polls\<close>

text \<open>
  \<open>sh.Run\<close> and \<open>sh.Output\<close> run an external command and wait for it. What the
  command answers is decided outside the program, and may differ from one run to the
  next: \<open>respond s k argv\<close> is the answer to the command line \<open>argv\<close> when \<open>k\<close>
  commands have been run before it, an error for a non-zero exit (or a command that
  could not be started) together with the captured standard output. \<open>ran\<close> lists the
  command lines run so far, oldest first, and \<open>slept\<close> counts the seconds spent in
  \<open>time.Sleep\<close>.
\<close>

record shell =
  respond :: "nat \<Rightarrow> string list \<Rightarrow> error option \<times> string"
  ran :: "string list list"
  slept :: nat

definition sh_Run :: "shell \<Rightarrow> string list \<Rightarrow> error option \<times> shell" where
  "sh_Run s argv = (fst (respond s (length (ran s)) argv), s\<lparr>ran := ran s @ [argv]\<rparr>)"

definition sh_Output :: "shell \<Rightarrow> string list \<Rightarrow> (string \<times> error option) \<times> shell" where
  "sh_Output s argv =
     ((snd (respond s (length (ran s)) argv), fst (respond s (length (ran s)) argv)),
      s\<lparr>ran := ran s @ [argv]\<rparr>)"

definition time_Sleep :: "shell \<Rightarrow> nat \<Rightarrow> shell" where
  "time_Sleep s seconds = s\<lparr>slept := slept s + seconds\<rparr>"

subsection \<open>Helm releases and namespaces\<close>

definition helm_status_argv :: "string \<Rightarrow> string \<Rightarrow> string list" where
  "helm_status_argv name namespace = [''helm'', ''status'', name, ''--namespace'', namespace]"

definition ReleaseExists :: "shell \<Rightarrow> string \<Rightarrow> string \<Rightarrow> (bool \<times> error option) \<times> shell" where
  "ReleaseExists s name namespace =
     (case sh_Run s (helm_status_argv name namespace) of
        (Some err, s1) \<Rightarrow> ((False, None), s1)
      | (None, s1) \<Rightarrow> ((True, None), s1))"

definition get_namespace_argv :: "string \<Rightarrow> string list" where
  "get_namespace_argv namespace = [''kubectl'', ''get'', ''namespace'', namespace]"

definition namespace_timeout :: "string \<Rightarrow> error" where
  "namespace_timeout namespace =
     Errorf (''timeout waiting for namespace '' @ [CHR 0x27] @ namespace @ [CHR 0x27] @ '' to be deleted'')"

text \<open>The \<open>for\<close> loop of \<open>WaitForNamespaceDeleted\<close>, entered with counter \<open>i\<close>.\<close>

function WaitForNamespaceDeleted_loop :: "nat \<Rightarrow> shell \<Rightarrow> string \<Rightarrow> error option \<times> shell" where
  "WaitForNamespaceDeleted_loop i s namespace =
     (if i < 60 then
        (case sh_Run s (get_namespace_argv namespace) of
           (Some err, s1) \<Rightarrow> (None, s1)
         | (None, s1) \<Rightarrow> WaitForNamespaceDeleted_loop (i + 1) (time_Sleep s1 1) namespace)
      else (Some (namespace_timeout namespace), s))"
  by pat_completeness auto
termination
  by (relation "measure (\<lambda>(i, s, namespace). 60 - i)") auto

declare WaitForNamespaceDeleted_loop.simps [simp del]

definition WaitForNamespaceDeleted :: "shell \<Rightarrow> string \<Rightarrow> error option \<times> shell" where
  "WaitForNamespaceDeleted s namespace = WaitForNamespaceDeleted_loop 0 s namespace"

subsection \<open>Argo Rollouts\<close>

definition get_rollouts_pods_argv :: "string \<Rightarrow> string list" where
  "get_rollouts_pods_argv namespace =
     [''kubectl'', ''get'', ''pods'', ''--namespace'', namespace,
      ''-l'', ''app.kubernetes.io/name=argo-rollouts'', ''--no-headers'']"

definition ArgoRolloutsExists :: "shell \<Rightarrow> string \<Rightarrow> (bool \<times> error option) \<times> shell" where
  "ArgoRolloutsExists s namespace =
     (case sh_Output s (get_rollouts_pods_argv namespace) of
        ((output, Some err), s1) \<Rightarrow> ((False, None), s1)
      | ((output, None), s1) \<Rightarrow> ((TrimSpace output \<noteq> [], None), s1))"

definition rollouts_timeout :: "string \<Rightarrow> error" where
  "rollouts_timeout namespace =
     Errorf (''timeout waiting for Argo Rollouts to be ready in namespace '' @ [CHR 0x27] @ namespace @ [CHR 0x27])"

text \<open>The \<open>for\<close> loop of \<open>WaitForArgoRolloutsReady\<close>, entered with counter \<open>i\<close>.\<close>

function WaitForArgoRolloutsReady_loop :: "nat \<Rightarrow> shell \<Rightarrow> string \<Rightarrow> error option \<times> shell" where
  "WaitForArgoRolloutsReady_loop i s namespace =
     (if i < 60 then
        (case sh_Output s (get_rollouts_pods_argv namespace) of
           ((output, err), s1) \<Rightarrow>
             if err = None \<and> strings_Contains output ''Running'' then (None, s1)
             else WaitForArgoRolloutsReady_loop (i + 1) (time_Sleep s1 1) namespace)
      else (Some (rollouts_timeout namespace), s))"
  by pat_completeness auto
termination
  by (relation "measure (\<lambda>(i, s, namespace). 60 - i)") auto

declare WaitForArgoRolloutsReady_loop.simps [simp del]

definition WaitForArgoRolloutsReady :: "shell \<Rightarrow> string \<Rightarrow> error option \<times> shell" where
  "WaitForArgoRolloutsReady s namespace = WaitForArgoRolloutsReady_loop 0 s namespace"

subsection \<open>Kind clusters\<close>

text \<open>The \<open>range\<close> loop of \<open>ClusterExists\<close> over the lines of the listing.\<close>

fun ClusterExists_loop :: "string list \<Rightarrow> string \<Rightarrow> bool \<times> error option" where
  "ClusterExists_loop [] name = (False, None)"
| "ClusterExists_loop (cluster # rest) name =
     (if TrimSpace cluster = name then (True, None) else ClusterExists_loop rest name)"

definition ClusterExists :: "shell \<Rightarrow> string \<Rightarrow> (bool \<times> error option) \<times> shell" where
  "ClusterExists s name =
     (case sh_Output s [''kind'', ''get'', ''clusters''] of
        ((clusters, Some err), s1) \<Rightarrow> ((False, Some (Wrapf ''failed to get clusters: '' err)), s1)
      | ((clusters, None), s1) \<Rightarrow> (ClusterExists_loop (split_on (CHR 0x0A) clusters) name, s1))"

text \<open>
  What a readiness poll is waiting for, read off the answer to one probe: the
  namespace poll succeeds when the command fails, the rollouts poll when the command
  succeeds and its output mentions \<open>Running\<close>.
\<close>

definition namespace_gone :: "shell \<Rightarrow> string \<Rightarrow> nat \<Rightarrow> bool" where
  "namespace_gone s namespace k = (fst (respond s k (get_namespace_argv namespace)) \<noteq> None)"

definition rollouts_ready :: "shell \<Rightarrow> string \<Rightarrow> nat \<Rightarrow> bool" where
  "rollouts_ready s namespace k =
     (fst (respond s k (get_rollouts_pods_argv namespace)) = None \<and>
      strings_Contains (snd (respond s k (get_rollouts_pods_argv namespace))) ''Running'')"

section \<open>Example states\<close>

text \<open>
  A developer machine on which the port-forward to \<open>argocd-server\<close> in namespace
  \<open>argocd\<close> was started as process 4242, and variations of it: the process group
  cannot be signalled, the process has died, the PID file holds no number, the PID
  file cannot be read, and the PID file cannot be written.
\<close>

definition world_running :: world where
  "world_running =
     \<lparr>data_home = ''/home/dev/.local/share'',
      files = [''/home/dev/.local/share/kargo/port-forward-argocd-server-argocd.pid'' \<mapsto> ''4242''],
      path_err = Map.empty, read_err = Map.empty, write_err = Map.empty, mkdir_err = Map.empty,
      procs = {4242}, kill_err = Map.empty, spawn = (\<lambda>argv. Inr 5150), signals = []\<rparr>"



definition world_malformed :: world where
  "world_malformed =
     world_running\<lparr>files :=
       [''/home/dev/.local/share/kargo/port-forward-argocd-server-argocd.pid'' \<mapsto> ''not-a-pid'']\<rparr>"

definition world_unreadable :: world where
  "world_unreadable =
     world_running\<lparr>read_err :=
       [''/home/dev/.local/share/kargo/port-forward-argocd-server-argocd.pid'' \<mapsto>
          OSError ''permission denied'']\<rparr>"


text \<open>The same machine before any port-forward was started.\<close>

definition world_fresh :: world where
  "world_fresh = world_running\<lparr>files := Map.empty, procs := {}\<rparr>"

text \<open>
  Command environments. In \<open>shell_denied\<close> every command exits non-zero, as when the
  cluster refuses the credentials. In \<open>shell_pending\<close> every command succeeds and
  lists a controller pod that is not running yet, and the namespace is never deleted. In
  \<open>shell_deleted_third\<close> the first two commands succeed and every later one fails;
  in \<open>shell_ready_third\<close> the pod is listed as running from the third command on.
  In \<open>shell_clusters\<close> the listing of clusters succeeds with two names.
\<close>

definition shell_denied :: shell where
  "shell_denied =
     \<lparr>respond = (\<lambda>k argv. (Some (OSError ''exit status 1''), [])), ran = [], slept = 0\<rparr>"

definition shell_pending :: shell where
  "shell_pending =
     \<lparr>respond = (\<lambda>k argv. (None, ''argo-rollouts-7d9c 0/1 Pending 0 5s'')), ran = [], slept = 0\<rparr>"

definition shell_deleted_third :: shell where
  "shell_deleted_third =
     \<lparr>respond = (\<lambda>k argv. if k < 2 then (None, ''argocd Terminating 3m'')
                           else (Some (OSError ''exit status 1''), [])),
      ran = [], slept = 0\<rparr>"

definition shell_ready_third :: shell where
  "shell_ready_third =
     \<lparr>respond = (\<lambda>k argv. if k < 2 then (None, ''argo-rollouts-7d9c 0/1 Pending 0 5s'')
                           else (None, ''argo-rollouts-7d9c 1/1 Running 0 9s'')),
      ran = [], slept = 0\<rparr>"

definition shell_clusters :: shell where
  "shell_clusters =
     \<lparr>respond = (\<lambda>k argv. (None, ''dev'' @ [CHR 0x0A] @ ''kargo'')), ran = [], slept = 0\<rparr>"

section \<open>Properties of the port-forward manager\<close>

subsection \<open>The outcomes of the status check\<close>

lemma PortForwardPIDFile_Remove [simp]:
  "PortForwardPIDFile (os_Remove w p) s n = PortForwardPIDFile w s n"
  by (simp add: PortForwardPIDFile_def os_Remove_def)

lemma IsPortForwardRunning_unfold:
  "IsPortForwardRunning w s n =
     (if os_IsNotExist (os_Stat w (PortForwardPIDFile w s n)) then ((False, 0, None), w)
      else case os_ReadFile w (PortForwardPIDFile w s n) of
             Inl err \<Rightarrow> ((False, 0, Some (Wrapf ''failed to read PID file: '' err)), w)
           | Inr pidBytes \<Rightarrow>
              (case Atoi (TrimSpace pidBytes) of
                 Inl err \<Rightarrow> ((False, 0, Some (Wrapf ''failed to parse PID: '' err)), w)
               | Inr pid \<Rightarrow>
                  if pid \<in> procs w then ((True, pid, None), w)
                  else ((False, 0, None), os_Remove w (PortForwardPIDFile w s n))))"
  by (simp add: IsPortForwardRunning_def Let_def os_FindProcess_def Process_Signal0_def
           split: sum.splits)

lemma read_ok_exists:
  "os_ReadFile w p = Inr c \<Longrightarrow> \<not> os_IsNotExist (os_Stat w p)"
  by (simp add: os_ReadFile_def os_Stat_def os_IsNotExist_def split: option.splits)



lemma absent_not_exist:
  "path_err w p = None \<Longrightarrow> files w p = None \<Longrightarrow> os_IsNotExist (os_Stat w p)"
  by (simp add: os_Stat_def os_IsNotExist_def)

text \<open>The five ways a status check can end.\<close>

lemma IsPortForwardRunning_cases [case_names missing unreadable malformed live dead]:
  obtains
    (missing) "os_IsNotExist (os_Stat w (PortForwardPIDFile w s n))"
      "IsPortForwardRunning w s n = ((False, 0, None), w)"
  | (unreadable) e where "\<not> os_IsNotExist (os_Stat w (PortForwardPIDFile w s n))"
      "os_ReadFile w (PortForwardPIDFile w s n) = Inl e"
      "IsPortForwardRunning w s n = ((False, 0, Some (Wrapf ''failed to read PID file: '' e)), w)"
  | (malformed) c e where "os_ReadFile w (PortForwardPIDFile w s n) = Inr c"
      "Atoi (TrimSpace c) = Inl e"
      "IsPortForwardRunning w s n = ((False, 0, Some (Wrapf ''failed to parse PID: '' e)), w)"
  | (live) c pid where "os_ReadFile w (PortForwardPIDFile w s n) = Inr c"
      "Atoi (TrimSpace c) = Inr pid" "pid \<in> procs w"
      "IsPortForwardRunning w s n = ((True, pid, None), w)"
  | (dead) c pid where "os_ReadFile w (PortForwardPIDFile w s n) = Inr c"
      "Atoi (TrimSpace c) = Inr pid" "pid \<notin> procs w"
      "IsPortForwardRunning w s n = ((False, 0, None), os_Remove w (PortForwardPIDFile w s n))"
proof (cases "os_IsNotExist (os_Stat w (PortForwardPIDFile w s n))")
  case True
  then show ?thesis using missing by (simp add: IsPortForwardRunning_unfold)
next
  case ex: False
  show ?thesis
  proof (cases "os_ReadFile w (PortForwardPIDFile w s n)")
    case (Inl e)
    with ex show ?thesis using unreadable by (simp add: IsPortForwardRunning_unfold)
  next
    case r: (Inr c)
    show ?thesis
    proof (cases "Atoi (TrimSpace c)")
      case (Inl e)
      with ex r show ?thesis using malformed by (simp add: IsPortForwardRunning_unfold)
    next
      case a: (Inr pid)
      show ?thesis
      proof (cases "pid \<in> procs w")
        case True
        with ex r a show ?thesis using live by (simp add: IsPortForwardRunning_unfold)
      next
        case False
        with ex r a show ?thesis using dead by (simp add: IsPortForwardRunning_unfold)
      qed
    qed
  qed
qed






lemma error_result:
  assumes "fst (IsPortForwardRunning w s n) = (r, p, Some e)"
  shows "IsPortForwardRunning w s n = ((False, 0, Some e), w) \<and>
         ((\<exists>e'. os_ReadFile w (PortForwardPIDFile w s n) = Inl e' \<and>
                e = Wrapf ''failed to read PID file: '' e') \<or>
          (\<exists>c e'. os_ReadFile w (PortForwardPIDFile w s n) = Inr c \<and>
                  Atoi (TrimSpace c) = Inl e' \<and> e = Wrapf ''failed to parse PID: '' e'))"
  using assms by (cases rule: IsPortForwardRunning_cases[of w s n]) simp_all

subsection \<open>Stopping a session\<close>







subsection \<open>The status check\<close>



text \<open>
  Claim C7. When the PID file can be read and its trimmed contents are not accepted by
  \<open>strconv.Atoi\<close>, \<open>IsPortForwardRunning\<close> returns not running, process id 0 and the
  parse error wrapped as \<open>failed to parse PID\<close>. A missing PID file gives the same two
  values with no error, so the two outcomes differ.
\<close>

theorem malformed_pidfile_is_error:
  assumes "os_ReadFile w (PortForwardPIDFile w service namespace) = Inr c"
    and "Atoi (TrimSpace c) = Inl e"
  shows "IsPortForwardRunning w service namespace =
           ((False, 0, Some (Wrapf ''failed to parse PID: '' e)), w) \<and>
         (\<forall>v. path_err v (PortForwardPIDFile v service namespace) = None \<and>
              files v (PortForwardPIDFile v service namespace) = None \<longrightarrow>
              IsPortForwardRunning v service namespace = ((False, 0, None), v) \<and>
              fst (IsPortForwardRunning v service namespace) \<noteq>
              fst (IsPortForwardRunning w service namespace))"
proof -
  from read_ok_exists[OF assms(1)] assms
  have bad: "IsPortForwardRunning w service namespace =
           ((False, 0, Some (Wrapf ''failed to parse PID: '' e)), w)"
    by (simp add: IsPortForwardRunning_unfold)
  have "IsPortForwardRunning v service namespace = ((False, 0, None), v)"
    if "path_err v (PortForwardPIDFile v service namespace) = None"
      and "files v (PortForwardPIDFile v service namespace) = None" for v
    using absent_not_exist[OF that] by (simp add: IsPortForwardRunning_unfold)
  with bad show ?thesis by simp
qed

text \<open>On \<open>world_malformed\<close> the PID file holds \<open>not-a-pid\<close>; on \<open>world_fresh\<close> there is no PID file.\<close>

theorem malformed_pidfile_is_error_witness:
  "os_ReadFile world_malformed (PortForwardPIDFile world_malformed ''argocd-server'' ''argocd'') =
     Inr ''not-a-pid'' \<and>
   Atoi (TrimSpace ''not-a-pid'') = Inl (NumError ''Atoi'' ''not-a-pid'' ErrSyntax) \<and>
   IsPortForwardRunning world_malformed ''argocd-server'' ''argocd'' =
     ((False, 0, Some (Wrapf ''failed to parse PID: '' (NumError ''Atoi'' ''not-a-pid'' ErrSyntax))),
      world_malformed) \<and>
   path_err world_fresh (PortForwardPIDFile world_fresh ''argocd-server'' ''argocd'') = None \<and>
   files world_fresh (PortForwardPIDFile world_fresh ''argocd-server'' ''argocd'') = None \<and>
   IsPortForwardRunning world_fresh ''argocd-server'' ''argocd'' = ((False, 0, None), world_fresh)"
proof -
  have r: "os_ReadFile world_malformed (PortForwardPIDFile world_malformed ''argocd-server'' ''argocd'') =
     Inr ''not-a-pid''"
    by code_simp
  have a: "Atoi (TrimSpace ''not-a-pid'') = Inl (NumError ''Atoi'' ''not-a-pid'' ErrSyntax)"
    by code_simp
  have p: "path_err world_fresh (PortForwardPIDFile world_fresh ''argocd-server'' ''argocd'') = None"
    by code_simp
  have f: "files world_fresh (PortForwardPIDFile world_fresh ''argocd-server'' ''argocd'') = None"
    by code_simp
  note t = malformed_pidfile_is_error[OF r a]
  from t have c1: "IsPortForwardRunning world_malformed ''argocd-server'' ''argocd'' =
     ((False, 0, Some (Wrapf ''failed to parse PID: '' (NumError ''Atoi'' ''not-a-pid'' ErrSyntax))),
      world_malformed)"
    by (rule conjunct1)
  from t p f have c2: "IsPortForwardRunning world_fresh ''argocd-server'' ''argocd'' = ((False, 0, None), world_fresh)"
    by blast
  from r a c1 p f c2 show ?thesis by blast
qed

text \<open>
  Claim C9. When \<open>IsPortForwardRunning\<close> returns an error, the error comes from
  reading or from parsing the PID file, and the state is left exactly as it was, the
  PID file included. So however often the check is repeated with nothing else acting
  on the state, each call returns the same error.
\<close>

theorem failed_check_changes_nothing:
  assumes "fst (IsPortForwardRunning w service namespace) = (r, p, Some e)"
  shows "snd (IsPortForwardRunning w service namespace) = w \<and>
         r = False \<and> p = 0 \<and>
         ((\<exists>e'. os_ReadFile w (PortForwardPIDFile w service namespace) = Inl e' \<and>
                e = Wrapf ''failed to read PID file: '' e') \<or>
          (\<exists>c e'. os_ReadFile w (PortForwardPIDFile w service namespace) = Inr c \<and>
                  Atoi (TrimSpace c) = Inl e' \<and> e = Wrapf ''failed to parse PID: '' e')) \<and>
         (\<forall>k. ((\<lambda>v. snd (IsPortForwardRunning v service namespace)) ^^ k) w = w \<and>
              fst (IsPortForwardRunning
                     (((\<lambda>v. snd (IsPortForwardRunning v service namespace)) ^^ k) w)
                     service namespace) = (False, 0, Some e))"
proof -
  from error_result[OF assms]
  have res: "IsPortForwardRunning w service namespace = ((False, 0, Some e), w)"
    and why: "(\<exists>e'. os_ReadFile w (PortForwardPIDFile w service namespace) = Inl e' \<and>
                e = Wrapf ''failed to read PID file: '' e') \<or>
          (\<exists>c e'. os_ReadFile w (PortForwardPIDFile w service namespace) = Inr c \<and>
                  Atoi (TrimSpace c) = Inl e' \<and> e = Wrapf ''failed to parse PID: '' e')"
    by blast+
  from res assms have rp: "r = False" "p = 0" by simp_all
  have iter: "((\<lambda>v. snd (IsPortForwardRunning v service namespace)) ^^ k) w = w" for k
    by (induction k) (simp_all add: res)
  from res rp why iter show ?thesis by simp
qed

text \<open>An unreadable PID file (\<open>world_unreadable\<close>) and an unparsable one (\<open>world_malformed\<close>).\<close>

theorem failed_check_changes_nothing_witness:
  "fst (IsPortForwardRunning world_unreadable ''argocd-server'' ''argocd'') =
     (False, 0, Some (Wrapf ''failed to read PID file: '' (OSError ''permission denied''))) \<and>
   snd (IsPortForwardRunning world_unreadable ''argocd-server'' ''argocd'') = world_unreadable \<and>
   fst (IsPortForwardRunning world_malformed ''argocd-server'' ''argocd'') =
     (False, 0, Some (Wrapf ''failed to parse PID: '' (NumError ''Atoi'' ''not-a-pid'' ErrSyntax))) \<and>
   snd (IsPortForwardRunning world_malformed ''argocd-server'' ''argocd'') = world_malformed"
proof -
  have u: "fst (IsPortForwardRunning world_unreadable ''argocd-server'' ''argocd'') =
     (False, 0, Some (Wrapf ''failed to read PID file: '' (OSError ''permission denied'')))"
    by code_simp
  have m: "fst (IsPortForwardRunning world_malformed ''argocd-server'' ''argocd'') =
     (False, 0, Some (Wrapf ''failed to parse PID: '' (NumError ''Atoi'' ''not-a-pid'' ErrSyntax)))"
    by code_simp
  from failed_check_changes_nothing[OF u] failed_check_changes_nothing[OF m] u m
  show ?thesis by blast
qed

section \<open>Properties of the existence checks and the readiness polls\<close>

subsection \<open>Existence checks\<close>

text \<open>
  Claim C5. \<open>ReleaseExists\<close> runs \<open>helm status\<close> once. Whatever error the command
  ends with, the result is \<open>(false, nil)\<close>; when it ends without error the result is
  \<open>(true, nil)\<close>. The error component of the result is \<open>nil\<close> in every case.
  \<open>ArgoRolloutsExists\<close> treats a failing command the same way.
\<close>

theorem ReleaseExists_swallows_probe_error:
  "(\<forall>err. fst (respond s (length (ran s)) (helm_status_argv name namespace)) = Some err \<longrightarrow>
      fst (ReleaseExists s name namespace) = (False, None)) \<and>
   (fst (respond s (length (ran s)) (helm_status_argv name namespace)) = None \<longrightarrow>
      fst (ReleaseExists s name namespace) = (True, None)) \<and>
   snd (fst (ReleaseExists s name namespace)) = None \<and>
   snd (ReleaseExists s name namespace) = s\<lparr>ran := ran s @ [helm_status_argv name namespace]\<rparr> \<and>
   (\<forall>err. fst (respond s (length (ran s)) (get_rollouts_pods_argv namespace)) = Some err \<longrightarrow>
      fst (ArgoRolloutsExists s namespace) = (False, None))"
  by (simp add: ReleaseExists_def sh_Run_def ArgoRolloutsExists_def sh_Output_def
           split: option.splits)

text \<open>A refused command on \<open>shell_denied\<close>, an accepted one on \<open>shell_pending\<close>.\<close>

theorem ReleaseExists_swallows_probe_error_witness:
  "fst (respond shell_denied (length (ran shell_denied)) (helm_status_argv ''argocd'' ''argocd'')) =
     Some (OSError ''exit status 1'') \<and>
   fst (ReleaseExists shell_denied ''argocd'' ''argocd'') = (False, None) \<and>
   fst (respond shell_pending (length (ran shell_pending)) (helm_status_argv ''argocd'' ''argocd'')) = None \<and>
   fst (ReleaseExists shell_pending ''argocd'' ''argocd'') = (True, None)"
proof -
  have d: "fst (respond shell_denied (length (ran shell_denied)) (helm_status_argv ''argocd'' ''argocd'')) =
     Some (OSError ''exit status 1'')"
    by code_simp
  have p: "fst (respond shell_pending (length (ran shell_pending)) (helm_status_argv ''argocd'' ''argocd'')) = None"
    by code_simp
  from ReleaseExists_swallows_probe_error[of shell_denied "''argocd''" "''argocd''"] d
  have c1: "fst (ReleaseExists shell_denied ''argocd'' ''argocd'') = (False, None)"
    by blast
  from ReleaseExists_swallows_probe_error[of shell_pending "''argocd''" "''argocd''"] p
  have c2: "fst (ReleaseExists shell_pending ''argocd'' ''argocd'') = (True, None)"
    by blast
  from d c1 p c2 show ?thesis by blast
qed

lemma ClusterExists_loop_iff:
  "ClusterExists_loop ls name = (name \<in> TrimSpace ` set ls, None)"
  by (induction ls) auto

text \<open>
  Claim C10. When \<open>kind get clusters\<close> ends with an error, \<open>ClusterExists\<close> returns
  \<open>false\<close> together with that error wrapped as \<open>failed to get clusters\<close>. When the
  command succeeds, the result is without error and tells whether some line of the
  output, trimmed, is the name. \<open>ReleaseExists\<close> on a failing command, in contrast,
  returns no error.
\<close>

theorem ClusterExists_reports_probe_error:
  "(\<forall>err. fst (respond s (length (ran s)) [''kind'', ''get'', ''clusters'']) = Some err \<longrightarrow>
      fst (ClusterExists s name) = (False, Some (Wrapf ''failed to get clusters: '' err))) \<and>
   (fst (respond s (length (ran s)) [''kind'', ''get'', ''clusters'']) = None \<longrightarrow>
      fst (ClusterExists s name) =
        (name \<in> TrimSpace ` set (split_on (CHR 0x0A)
                   (snd (respond s (length (ran s)) [''kind'', ''get'', ''clusters'']))), None)) \<and>
   (\<forall>err. fst (respond s (length (ran s)) (helm_status_argv name namespace)) = Some err \<longrightarrow>
      fst (ReleaseExists s name namespace) = (False, None))"
  by (simp add: ClusterExists_def sh_Output_def ClusterExists_loop_iff ReleaseExists_def sh_Run_def
           split: option.splits)

text \<open>A refused listing on \<open>shell_denied\<close>; a listing of \<open>dev\<close> and \<open>kargo\<close> on \<open>shell_clusters\<close>.\<close>

theorem ClusterExists_reports_probe_error_witness:
  "fst (respond shell_denied (length (ran shell_denied)) [''kind'', ''get'', ''clusters'']) =
     Some (OSError ''exit status 1'') \<and>
   fst (ClusterExists shell_denied ''kargo'') =
     (False, Some (Wrapf ''failed to get clusters: '' (OSError ''exit status 1''))) \<and>
   fst (respond shell_clusters (length (ran shell_clusters)) [''kind'', ''get'', ''clusters'']) = None \<and>
   fst (ClusterExists shell_clusters ''staging'') = (False, None) \<and>
   fst (ClusterExists shell_clusters ''kargo'') = (True, None)"
proof -
  have d: "fst (respond shell_denied (length (ran shell_denied)) [''kind'', ''get'', ''clusters'']) =
     Some (OSError ''exit status 1'')"
    by code_simp
  have c: "fst (respond shell_clusters (length (ran shell_clusters)) [''kind'', ''get'', ''clusters'']) = None"
    by code_simp
  have m1: "(''staging'' \<in> TrimSpace ` set (split_on (CHR 0x0A)
                   (snd (respond shell_clusters (length (ran shell_clusters)) [''kind'', ''get'', ''clusters''])))) = False"
    by code_simp
  have m2: "(''kargo'' \<in> TrimSpace ` set (split_on (CHR 0x0A)
                   (snd (respond shell_clusters (length (ran shell_clusters)) [''kind'', ''get'', ''clusters''])))) = True"
    by code_simp
  from ClusterExists_reports_probe_error[of shell_denied "''kargo''"] d
  have c1: "fst (ClusterExists shell_denied ''kargo'') =
     (False, Some (Wrapf ''failed to get clusters: '' (OSError ''exit status 1'')))"
    by blast
  from ClusterExists_reports_probe_error[of shell_clusters "''staging''"] c m1
  have c2: "fst (ClusterExists shell_clusters ''staging'') = (False, None)"
    by simp
  from ClusterExists_reports_probe_error[of shell_clusters "''kargo''"] c m2
  have c3: "fst (ClusterExists shell_clusters ''kargo'') = (True, None)"
    by simp
  from d c1 c c2 c3 show ?thesis by blast
qed

subsection \<open>Readiness polls\<close>

lemma namespace_gone_frame [simp]:
  "namespace_gone (s\<lparr>ran := r\<rparr>) ns k = namespace_gone s ns k"
  "namespace_gone (s\<lparr>slept := t\<rparr>) ns k = namespace_gone s ns k"
  by (simp_all add: namespace_gone_def)

lemma sh_Run_probe:
  "sh_Run s (get_namespace_argv ns) =
     (fst (respond s (length (ran s)) (get_namespace_argv ns)), s\<lparr>ran := ran s @ [get_namespace_argv ns]\<rparr>)"
  by (simp add: sh_Run_def)

lemma namespace_loop_timeout:
  "d = 60 - i \<Longrightarrow> i \<le> 60 \<Longrightarrow>
   (\<forall>k<d. \<not> namespace_gone s ns (length (ran s) + k)) \<Longrightarrow>
   WaitForNamespaceDeleted_loop i s ns =
     (Some (namespace_timeout ns),
      s\<lparr>ran := ran s @ replicate d (get_namespace_argv ns), slept := slept s + d\<rparr>)"
proof (induction d arbitrary: i s)
  case 0
  then have "\<not> i < 60" by simp
  then show ?case by (simp add: WaitForNamespaceDeleted_loop.simps)
next
  case (Suc d)
  let ?s' = "time_Sleep (s\<lparr>ran := ran s @ [get_namespace_argv ns]\<rparr>) 1"
  from Suc.prems have i: "i < 60" and d: "d = 60 - (i + 1)" and i': "i + 1 \<le> 60" by simp_all
  from Suc.prems(3) have now: "\<not> namespace_gone s ns (length (ran s))"
    by (metis add.right_neutral zero_less_Suc)
  have later: "\<forall>k<d. \<not> namespace_gone ?s' ns (length (ran ?s') + k)"
  proof (intro allI impI)
    fix k assume "k < d"
    then have "Suc k < Suc d" by simp
    from Suc.prems(3)[rule_format, OF this]
    have "\<not> namespace_gone s ns (length (ran s) + Suc k)" .
    then show "\<not> namespace_gone ?s' ns (length (ran ?s') + k)"
      by (simp add: time_Sleep_def)
  qed
  from now have none: "fst (respond s (length (ran s)) (get_namespace_argv ns)) = None"
    by (simp add: namespace_gone_def)
  have "WaitForNamespaceDeleted_loop i s ns = WaitForNamespaceDeleted_loop (i + 1) ?s' ns"
    using i none by (subst WaitForNamespaceDeleted_loop.simps) (simp add: sh_Run_probe)
  also have "\<dots> = (Some (namespace_timeout ns),
      ?s'\<lparr>ran := ran ?s' @ replicate d (get_namespace_argv ns), slept := slept ?s' + d\<rparr>)"
    using Suc.IH[OF d i' later] .
  also have "?s'\<lparr>ran := ran ?s' @ replicate d (get_namespace_argv ns), slept := slept ?s' + d\<rparr> =
     s\<lparr>ran := ran s @ replicate (Suc d) (get_namespace_argv ns), slept := slept s + Suc d\<rparr>"
    by (simp add: time_Sleep_def)
  finally show ?case .
qed

lemma namespace_loop_success:
  "i + j < 60 \<Longrightarrow>
   (\<forall>k<j. \<not> namespace_gone s ns (length (ran s) + k)) \<Longrightarrow>
   namespace_gone s ns (length (ran s) + j) \<Longrightarrow>
   WaitForNamespaceDeleted_loop i s ns =
     (None, s\<lparr>ran := ran s @ replicate (Suc j) (get_namespace_argv ns), slept := slept s + j\<rparr>)"
proof (induction j arbitrary: i s)
  case 0
  then have i: "i < 60" and "namespace_gone s ns (length (ran s))" by simp_all
  then obtain e where "fst (respond s (length (ran s)) (get_namespace_argv ns)) = Some e"
    by (auto simp: namespace_gone_def)
  with i show ?case
    by (subst WaitForNamespaceDeleted_loop.simps) (simp add: sh_Run_probe)
next
  case (Suc j)
  let ?s' = "time_Sleep (s\<lparr>ran := ran s @ [get_namespace_argv ns]\<rparr>) 1"
  from Suc.prems have i: "i < 60" and i': "(i + 1) + j < 60" by simp_all
  from Suc.prems(2) have now: "\<not> namespace_gone s ns (length (ran s))"
    by (metis add.right_neutral zero_less_Suc)
  have later: "\<forall>k<j. \<not> namespace_gone ?s' ns (length (ran ?s') + k)"
  proof (intro allI impI)
    fix k assume "k < j"
    then have "Suc k < Suc j" by simp
    from Suc.prems(2)[rule_format, OF this]
    have "\<not> namespace_gone s ns (length (ran s) + Suc k)" .
    then show "\<not> namespace_gone ?s' ns (length (ran ?s') + k)"
      by (simp add: time_Sleep_def)
  qed
  from Suc.prems(3) have hit: "namespace_gone ?s' ns (length (ran ?s') + j)"
    by (simp add: time_Sleep_def)
  from now have none: "fst (respond s (length (ran s)) (get_namespace_argv ns)) = None"
    by (simp add: namespace_gone_def)
  have "WaitForNamespaceDeleted_loop i s ns = WaitForNamespaceDeleted_loop (i + 1) ?s' ns"
    using i none by (subst WaitForNamespaceDeleted_loop.simps) (simp add: sh_Run_probe)
  also have "\<dots> = (None,
      ?s'\<lparr>ran := ran ?s' @ replicate (Suc j) (get_namespace_argv ns), slept := slept ?s' + j\<rparr>)"
    using Suc.IH[OF i' later hit] .
  also have "?s'\<lparr>ran := ran ?s' @ replicate (Suc j) (get_namespace_argv ns), slept := slept ?s' + j\<rparr> =
     s\<lparr>ran := ran s @ replicate (Suc (Suc j)) (get_namespace_argv ns), slept := slept s + Suc j\<rparr>"
    by (simp add: time_Sleep_def)
  finally show ?case .
qed

lemma contains_prefix: "prefix sub s \<Longrightarrow> strings_Contains s sub"
  by (cases s) simp_all

lemma contains_mid: "strings_Contains (xs @ ys @ zs) ys"
proof (induction xs)
  case Nil
  show ?case by (simp add: contains_prefix)
next
  case (Cons x xs)
  then show ?case by simp
qed

lemma namespace_timeout_names:
  "strings_Contains (error_text (namespace_timeout ns)) ns"
  unfolding namespace_timeout_def error_text.simps
  using contains_mid[of "''timeout waiting for namespace '' @ [CHR 0x27]" ns "[CHR 0x27] @ '' to be deleted''"]
  by simp

lemma rollouts_timeout_names:
  "strings_Contains (error_text (rollouts_timeout ns)) ns"
  unfolding rollouts_timeout_def error_text.simps
  using contains_mid[of "''timeout waiting for Argo Rollouts to be ready in namespace '' @ [CHR 0x27]" ns "[CHR 0x27]"]
  by simp

lemma rollouts_ready_frame [simp]:
  "rollouts_ready (s\<lparr>ran := r\<rparr>) ns k = rollouts_ready s ns k"
  "rollouts_ready (s\<lparr>slept := t\<rparr>) ns k = rollouts_ready s ns k"
  by (simp_all add: rollouts_ready_def)

lemma sh_Output_probe:
  "sh_Output s (get_rollouts_pods_argv ns) =
     ((snd (respond s (length (ran s)) (get_rollouts_pods_argv ns)),
       fst (respond s (length (ran s)) (get_rollouts_pods_argv ns))),
      s\<lparr>ran := ran s @ [get_rollouts_pods_argv ns]\<rparr>)"
  by (simp add: sh_Output_def)

lemma rollouts_loop_timeout:
  "d = 60 - i \<Longrightarrow> i \<le> 60 \<Longrightarrow>
   (\<forall>k<d. \<not> rollouts_ready s ns (length (ran s) + k)) \<Longrightarrow>
   WaitForArgoRolloutsReady_loop i s ns =
     (Some (rollouts_timeout ns),
      s\<lparr>ran := ran s @ replicate d (get_rollouts_pods_argv ns), slept := slept s + d\<rparr>)"
proof (induction d arbitrary: i s)
  case 0
  then have "\<not> i < 60" by simp
  then show ?case by (simp add: WaitForArgoRolloutsReady_loop.simps)
next
  case (Suc d)
  let ?s' = "time_Sleep (s\<lparr>ran := ran s @ [get_rollouts_pods_argv ns]\<rparr>) 1"
  from Suc.prems have i: "i < 60" and d: "d = 60 - (i + 1)" and i': "i + 1 \<le> 60" by simp_all
  from Suc.prems(3) have now: "\<not> rollouts_ready s ns (length (ran s))"
    by (metis add.right_neutral zero_less_Suc)
  have later: "\<forall>k<d. \<not> rollouts_ready ?s' ns (length (ran ?s') + k)"
  proof (intro allI impI)
    fix k assume "k < d"
    then have "Suc k < Suc d" by simp
    from Suc.prems(3)[rule_format, OF this]
    have "\<not> rollouts_ready s ns (length (ran s) + Suc k)" .
    then show "\<not> rollouts_ready ?s' ns (length (ran ?s') + k)"
      by (simp add: time_Sleep_def)
  qed
  from now have none: "\<not> (fst (respond s (length (ran s)) (get_rollouts_pods_argv ns)) = None \<and>
      strings_Contains (snd (respond s (length (ran s)) (get_rollouts_pods_argv ns))) ''Running'')"
    by (simp add: rollouts_ready_def)
  have "WaitForArgoRolloutsReady_loop i s ns = WaitForArgoRolloutsReady_loop (i + 1) ?s' ns"
    using i none by (subst WaitForArgoRolloutsReady_loop.simps) (auto simp: sh_Output_probe)
  also have "\<dots> = (Some (rollouts_timeout ns),
      ?s'\<lparr>ran := ran ?s' @ replicate d (get_rollouts_pods_argv ns), slept := slept ?s' + d\<rparr>)"
    using Suc.IH[OF d i' later] .
  also have "?s'\<lparr>ran := ran ?s' @ replicate d (get_rollouts_pods_argv ns), slept := slept ?s' + d\<rparr> =
     s\<lparr>ran := ran s @ replicate (Suc d) (get_rollouts_pods_argv ns), slept := slept s + Suc d\<rparr>"
    by (simp add: time_Sleep_def)
  finally show ?case .
qed

lemma rollouts_loop_success:
  "i + j < 60 \<Longrightarrow>
   (\<forall>k<j. \<not> rollouts_ready s ns (length (ran s) + k)) \<Longrightarrow>
   rollouts_ready s ns (length (ran s) + j) \<Longrightarrow>
   WaitForArgoRolloutsReady_loop i s ns =
     (None, s\<lparr>ran := ran s @ replicate (Suc j) (get_rollouts_pods_argv ns), slept := slept s + j\<rparr>)"
proof (induction j arbitrary: i s)
  case 0
  then have i: "i < 60" and "rollouts_ready s ns (length (ran s))" by simp_all
  then have "fst (respond s (length (ran s)) (get_rollouts_pods_argv ns)) = None \<and>
      strings_Contains (snd (respond s (length (ran s)) (get_rollouts_pods_argv ns))) ''Running''"
    by (simp add: rollouts_ready_def)
  with i show ?case
    by (subst WaitForArgoRolloutsReady_loop.simps) (simp add: sh_Output_probe)
next
  case (Suc j)
  let ?s' = "time_Sleep (s\<lparr>ran := ran s @ [get_rollouts_pods_argv ns]\<rparr>) 1"
  from Suc.prems have i: "i < 60" and i': "(i + 1) + j < 60" by simp_all
  from Suc.prems(2) have now: "\<not> rollouts_ready s ns (length (ran s))"
    by (metis add.right_neutral zero_less_Suc)
  have later: "\<forall>k<j. \<not> rollouts_ready ?s' ns (length (ran ?s') + k)"
  proof (intro allI impI)
    fix k assume "k < j"
    then have "Suc k < Suc j" by simp
    from Suc.prems(2)[rule_format, OF this]
    have "\<not> rollouts_ready s ns (length (ran s) + Suc k)" .
    then show "\<not> rollouts_ready ?s' ns (length (ran ?s') + k)"
      by (simp add: time_Sleep_def)
  qed
  from Suc.prems(3) have hit: "rollouts_ready ?s' ns (length (ran ?s') + j)"
    by (simp add: time_Sleep_def)
  from now have none: "\<not> (fst (respond s (length (ran s)) (get_rollouts_pods_argv ns)) = None \<and>
      strings_Contains (snd (respond s (length (ran s)) (get_rollouts_pods_argv ns))) ''Running'')"
    by (simp add: rollouts_ready_def)
  have "WaitForArgoRolloutsReady_loop i s ns = WaitForArgoRolloutsReady_loop (i + 1) ?s' ns"
    using i none by (subst WaitForArgoRolloutsReady_loop.simps) (auto simp: sh_Output_probe)
  also have "\<dots> = (None,
      ?s'\<lparr>ran := ran ?s' @ replicate (Suc j) (get_rollouts_pods_argv ns), slept := slept ?s' + j\<rparr>)"
    using Suc.IH[OF i' later hit] .
  also have "?s'\<lparr>ran := ran ?s' @ replicate (Suc j) (get_rollouts_pods_argv ns), slept := slept ?s' + j\<rparr> =
     s\<lparr>ran := ran s @ replicate (Suc (Suc j)) (get_rollouts_pods_argv ns), slept := slept s + Suc j\<rparr>"
    by (simp add: time_Sleep_def)
  finally show ?case .
qed

text \<open>
  Claim C4. Counted from the commands already run, let the probes be numbered from 0.
  If none of the first 60 probes finds the condition, the poll runs exactly 60
  probes, sleeps one second after each, and returns a timeout error whose text
  contains the namespace. If probe \<open>j\<close> (below 60) is the first to find the
  condition, the poll returns success after exactly \<open>j + 1\<close> probes and \<open>j\<close> seconds
  of sleep. This holds for \<open>WaitForNamespaceDeleted\<close>, whose condition is that the
  command fails, and for \<open>WaitForArgoRolloutsReady\<close>, whose condition is that the
  command succeeds with \<open>Running\<close> in its output.
\<close>

theorem readiness_polls_are_bounded:
  "((\<forall>k<60. \<not> namespace_gone s ns (length (ran s) + k)) \<longrightarrow>
      WaitForNamespaceDeleted s ns =
        (Some (namespace_timeout ns),
         s\<lparr>ran := ran s @ replicate 60 (get_namespace_argv ns), slept := slept s + 60\<rparr>)) \<and>
   (\<forall>j<60. (\<forall>k<j. \<not> namespace_gone s ns (length (ran s) + k)) \<and>
            namespace_gone s ns (length (ran s) + j) \<longrightarrow>
      WaitForNamespaceDeleted s ns =
        (None, s\<lparr>ran := ran s @ replicate (Suc j) (get_namespace_argv ns), slept := slept s + j\<rparr>)) \<and>
   ((\<forall>k<60. \<not> rollouts_ready s ns (length (ran s) + k)) \<longrightarrow>
      WaitForArgoRolloutsReady s ns =
        (Some (rollouts_timeout ns),
         s\<lparr>ran := ran s @ replicate 60 (get_rollouts_pods_argv ns), slept := slept s + 60\<rparr>)) \<and>
   (\<forall>j<60. (\<forall>k<j. \<not> rollouts_ready s ns (length (ran s) + k)) \<and>
            rollouts_ready s ns (length (ran s) + j) \<longrightarrow>
      WaitForArgoRolloutsReady s ns =
        (None, s\<lparr>ran := ran s @ replicate (Suc j) (get_rollouts_pods_argv ns), slept := slept s + j\<rparr>)) \<and>
   strings_Contains (error_text (namespace_timeout ns)) ns \<and>
   strings_Contains (error_text (rollouts_timeout ns)) ns"
proof -
  have a: "WaitForNamespaceDeleted s ns =
        (Some (namespace_timeout ns),
         s\<lparr>ran := ran s @ replicate 60 (get_namespace_argv ns), slept := slept s + 60\<rparr>)"
    if "\<forall>k<60. \<not> namespace_gone s ns (length (ran s) + k)"
    unfolding WaitForNamespaceDeleted_def
    using namespace_loop_timeout[of 60 0 s ns] that by simp
  have b: "WaitForNamespaceDeleted s ns =
        (None, s\<lparr>ran := ran s @ replicate (Suc j) (get_namespace_argv ns), slept := slept s + j\<rparr>)"
    if "j < 60" "\<forall>k<j. \<not> namespace_gone s ns (length (ran s) + k)"
       "namespace_gone s ns (length (ran s) + j)" for j
    unfolding WaitForNamespaceDeleted_def
    using namespace_loop_success[of 0 j s ns] that by simp
  have c: "WaitForArgoRolloutsReady s ns =
        (Some (rollouts_timeout ns),
         s\<lparr>ran := ran s @ replicate 60 (get_rollouts_pods_argv ns), slept := slept s + 60\<rparr>)"
    if "\<forall>k<60. \<not> rollouts_ready s ns (length (ran s) + k)"
    unfolding WaitForArgoRolloutsReady_def
    using rollouts_loop_timeout[of 60 0 s ns] that by simp
  have d: "WaitForArgoRolloutsReady s ns =
        (None, s\<lparr>ran := ran s @ replicate (Suc j) (get_rollouts_pods_argv ns), slept := slept s + j\<rparr>)"
    if "j < 60" "\<forall>k<j. \<not> rollouts_ready s ns (length (ran s) + k)"
       "rollouts_ready s ns (length (ran s) + j)" for j
    unfolding WaitForArgoRolloutsReady_def
    using rollouts_loop_success[of 0 j s ns] that by simp
  from a b c d namespace_timeout_names rollouts_timeout_names show ?thesis by blast
qed

text \<open>
  Two polls that time out on \<open>shell_pending\<close>, and two that succeed at the third probe,
  on \<open>shell_deleted_third\<close> and \<open>shell_ready_third\<close>.
\<close>

theorem readiness_polls_are_bounded_witness:
  "(\<forall>k. \<not> namespace_gone shell_pending ''argocd'' k) \<and>
   fst (WaitForNamespaceDeleted shell_pending ''argocd'') = Some (namespace_timeout ''argocd'') \<and>
   length (ran (snd (WaitForNamespaceDeleted shell_pending ''argocd''))) = 60 \<and>
   slept (snd (WaitForNamespaceDeleted shell_pending ''argocd'')) = 60 \<and>
   (\<forall>k. \<not> rollouts_ready shell_pending ''argo-rollouts'' k) \<and>
   fst (WaitForArgoRolloutsReady shell_pending ''argo-rollouts'') = Some (rollouts_timeout ''argo-rollouts'') \<and>
   length (ran (snd (WaitForArgoRolloutsReady shell_pending ''argo-rollouts''))) = 60 \<and>
   slept (snd (WaitForArgoRolloutsReady shell_pending ''argo-rollouts'')) = 60 \<and>
   \<not> namespace_gone shell_deleted_third ''argocd'' 0 \<and>
   \<not> namespace_gone shell_deleted_third ''argocd'' 1 \<and>
   namespace_gone shell_deleted_third ''argocd'' 2 \<and>
   fst (WaitForNamespaceDeleted shell_deleted_third ''argocd'') = None \<and>
   length (ran (snd (WaitForNamespaceDeleted shell_deleted_third ''argocd''))) = 3 \<and>
   slept (snd (WaitForNamespaceDeleted shell_deleted_third ''argocd'')) = 2 \<and>
   \<not> rollouts_ready shell_ready_third ''argo-rollouts'' 0 \<and>
   \<not> rollouts_ready shell_ready_third ''argo-rollouts'' 1 \<and>
   rollouts_ready shell_ready_third ''argo-rollouts'' 2 \<and>
   fst (WaitForArgoRolloutsReady shell_ready_third ''argo-rollouts'') = None \<and>
   length (ran (snd (WaitForArgoRolloutsReady shell_ready_third ''argo-rollouts''))) = 3 \<and>
   slept (snd (WaitForArgoRolloutsReady shell_ready_third ''argo-rollouts'')) = 2"
proof -
  have r0: "ran shell_pending = []" "slept shell_pending = 0"
           "ran shell_deleted_third = []" "slept shell_deleted_third = 0"
           "ran shell_ready_third = []" "slept shell_ready_third = 0"
    by (simp_all add: shell_pending_def shell_deleted_third_def shell_ready_third_def)
  have run: "strings_Contains ''argo-rollouts-7d9c 0/1 Pending 0 5s'' ''Running'' = False"
            "strings_Contains ''argo-rollouts-7d9c 1/1 Running 0 9s'' ''Running'' = True"
    by code_simp+
  have n1: "\<forall>k. \<not> namespace_gone shell_pending ''argocd'' k"
    by (simp add: namespace_gone_def shell_pending_def)
  have n2: "\<forall>k. \<not> rollouts_ready shell_pending ''argo-rollouts'' k"
    using run by (simp add: rollouts_ready_def shell_pending_def)
  have n3: "\<not> namespace_gone shell_deleted_third ''argocd'' 0"
           "\<not> namespace_gone shell_deleted_third ''argocd'' 1"
           "namespace_gone shell_deleted_third ''argocd'' 2"
    by (simp_all add: namespace_gone_def shell_deleted_third_def)
  have n4: "\<not> rollouts_ready shell_ready_third ''argo-rollouts'' 0"
           "\<not> rollouts_ready shell_ready_third ''argo-rollouts'' 1"
           "rollouts_ready shell_ready_third ''argo-rollouts'' 2"
    using run by (simp_all add: rollouts_ready_def shell_ready_third_def)
  have h1: "\<forall>k<60. \<not> namespace_gone shell_pending ''argocd'' (length (ran shell_pending) + k)"
    using n1 by simp
  have h2: "\<forall>k<60. \<not> rollouts_ready shell_pending ''argo-rollouts'' (length (ran shell_pending) + k)"
    using n2 by simp
  have h3: "\<forall>k<2. \<not> namespace_gone shell_deleted_third ''argocd'' (length (ran shell_deleted_third) + k)"
    by (simp add: namespace_gone_def shell_deleted_third_def)
  have h4: "namespace_gone shell_deleted_third ''argocd'' (length (ran shell_deleted_third) + 2)"
    by (simp add: namespace_gone_def shell_deleted_third_def)
  have h5: "\<forall>k<2. \<not> rollouts_ready shell_ready_third ''argo-rollouts'' (length (ran shell_ready_third) + k)"
    using run by (simp add: rollouts_ready_def shell_ready_third_def)
  have h6: "rollouts_ready shell_ready_third ''argo-rollouts'' (length (ran shell_ready_third) + 2)"
    using run by (simp add: rollouts_ready_def shell_ready_third_def)
  note p1 = readiness_polls_are_bounded[of shell_pending "''argocd''"]
  note p2 = readiness_polls_are_bounded[of shell_pending "''argo-rollouts''"]
  note p3 = readiness_polls_are_bounded[of shell_deleted_third "''argocd''"]
  note p4 = readiness_polls_are_bounded[of shell_ready_third "''argo-rollouts''"]
  from p1 h1 have e1: "WaitForNamespaceDeleted shell_pending ''argocd'' =
        (Some (namespace_timeout ''argocd''),
         shell_pending\<lparr>ran := ran shell_pending @ replicate 60 (get_namespace_argv ''argocd''),
                        slept := slept shell_pending + 60\<rparr>)"
    by blast
  from p2 h2 have e2: "WaitForArgoRolloutsReady shell_pending ''argo-rollouts'' =
        (Some (rollouts_timeout ''argo-rollouts''),
         shell_pending\<lparr>ran := ran shell_pending @ replicate 60 (get_rollouts_pods_argv ''argo-rollouts''),
                        slept := slept shell_pending + 60\<rparr>)"
    by blast
  have two: "(2::nat) < 60" by simp
  from p3 h3 h4 two have e3: "WaitForNamespaceDeleted shell_deleted_third ''argocd'' =
        (None, shell_deleted_third\<lparr>ran := ran shell_deleted_third @ replicate (Suc 2) (get_namespace_argv ''argocd''),
                        slept := slept shell_deleted_third + 2\<rparr>)"
    by blast
  from p4 h5 h6 two have e4: "WaitForArgoRolloutsReady shell_ready_third ''argo-rollouts'' =
        (None, shell_ready_third\<lparr>ran := ran shell_ready_third @ replicate (Suc 2) (get_rollouts_pods_argv ''argo-rollouts''),
                        slept := slept shell_ready_third + 2\<rparr>)"
    by blast
  show ?thesis
    using n1 n2 n3 n4 by (simp add: e1 e2 e3 e4 r0)
qed

section \<open>Properties of starting a session\<close>

subsection \<open>A process id written with \<open>%d\<close> is read back by \<open>strconv.Atoi\<close>\<close>

lemma digit_char_props:
  assumes "0 \<le> d" "d < 10"
  shows "is_digit (digit_char d)" "digit_val (digit_char d) = d"
    "(of_char (digit_char d) :: int) = 48 + d"
proof -
  from assms have m: "(48 + d) mod 256 = 48 + d" by simp
  show 3: "(of_char (digit_char d) :: int) = 48 + d"
    by (simp add: digit_char_def m)
  from 3 assms show "is_digit (digit_char d)" by (simp add: is_digit_def)
  from 3 show "digit_val (digit_char d) = d" by (simp add: digit_val_def)
qed

lemma parse_digits_append:
  "parse_digits acc (xs @ ys) =
     (case parse_digits acc xs of Inl e \<Rightarrow> Inl e | Inr a \<Rightarrow> parse_digits a ys)"
  by (induction xs arbitrary: acc) simp_all

lemma parse_decimal:
  "0 \<le> n \<Longrightarrow> n < 2 ^ 64 \<Longrightarrow> parse_digits 0 (decimal n) = Inr n"
proof (induction n rule: decimal.induct)
  case (1 n)
  show ?case
  proof (cases "n < 10")
    case True
    with "1.prems" show ?thesis
      by (subst decimal.simps) (simp add: digit_char_props)
  next
    case False
    with "1.prems" have d: "0 \<le> n div 10" "n div 10 < 2 ^ 64" by simp_all
    have m: "0 \<le> n mod 10" "n mod 10 < 10" by simp_all
    have "n div 10 * 10 + n mod 10 = n" by simp
    with "1.IH"[OF False d] False "1.prems" show ?thesis
      by (subst decimal.simps) (simp add: parse_digits_append digit_char_props[OF m])
  qed
qed

lemma decimal_shape:
  "0 \<le> n \<Longrightarrow> decimal n \<noteq> [] \<and> (\<forall>c \<in> set (decimal n). is_digit c)"
proof (induction n rule: decimal.induct)
  case (1 n)
  show ?case
  proof (cases "n < 10")
    case True
    with "1.prems" show ?thesis
      by (subst decimal.simps, subst (2) decimal.simps) (simp add: digit_char_props)
  next
    case False
    with "1.prems" have d: "0 \<le> n div 10" by simp
    have m: "0 \<le> n mod 10" "n mod 10 < 10" by simp_all
    from "1.IH"[OF False d] False show ?thesis
      by (subst decimal.simps, subst (2) decimal.simps) (auto simp: digit_char_props[OF m])
  qed
qed

lemma trim_front_keeps:
  assumes "[] \<notin> set encs" "c \<notin> hd ` set encs"
  shows "trim_front encs (c # cs) = c # cs"
proof -
  have "\<not> prefix e (c # cs)" if "e \<in> set encs" for e
  proof (cases e)
    case Nil
    with that assms(1) show ?thesis by simp
  next
    case (Cons x xs)
    with that assms(2) have "x \<noteq> c" by force
    with Cons show ?thesis by simp
  qed
  then have "List.find (\<lambda>e. prefix e (c # cs)) encs = None"
    by (simp add: find_None_iff)
  then show ?thesis by (simp add: space_width_def)
qed

lemma space_heads:
  "[] \<notin> set space_encodings"
  "hd ` set space_encodings =
     {CHR 0x09, CHR 0x0A, CHR 0x0B, CHR 0x0C, CHR 0x0D, CHR 0x20,
      CHR 0xC2, CHR 0xE1, CHR 0xE2, CHR 0xE3}"
  by (auto simp: space_encodings_def)

lemma space_lasts:
  "[] \<notin> set (map rev space_encodings)"
  "hd ` set (map rev space_encodings) =
     {CHR 0x09, CHR 0x0A, CHR 0x0B, CHR 0x0C, CHR 0x0D, CHR 0x20,
      CHR 0x85, CHR 0xA0, CHR 0x80, CHR 0x81, CHR 0x82, CHR 0x83, CHR 0x84,
      CHR 0x86, CHR 0x87, CHR 0x88, CHR 0x89, CHR 0x8A, CHR 0xA8, CHR 0xA9,
      CHR 0xAF, CHR 0x9F}"
  by (auto simp: space_encodings_def)

lemma digit_not_space:
  assumes "is_digit c \<or> c = CHR ''-''"
  shows "c \<notin> hd ` set space_encodings" "c \<notin> hd ` set (map rev space_encodings)"
  using assms unfolding space_heads space_lasts by (auto simp: is_digit_def)

lemma digit_not_sign: "is_digit c \<Longrightarrow> c \<noteq> CHR ''-'' \<and> c \<noteq> CHR ''+''"
  by (auto simp: is_digit_def)

lemma TrimSpace_keeps:
  assumes "s \<noteq> []" "is_digit (hd s) \<or> hd s = CHR ''-''" "is_digit (last s)"
  shows "TrimSpace s = s"
proof -
  from assms(1) obtain c cs where s: "s = c # cs" by (cases s) auto
  with assms(2) have "is_digit c \<or> c = CHR ''-''" by simp
  then have "c \<notin> hd ` set space_encodings" by (rule digit_not_space)
  then have "trim_front space_encodings (c # cs) = c # cs"
    by (rule trim_front_keeps[OF space_heads(1)])
  then have l: "TrimLeftSpace s = s" unfolding TrimLeftSpace_def s .
  from assms(1) have r: "rev s = last s # rev (butlast s)"
    by (metis append_butlast_last_id rev.simps(2) rev_rev_ident rev_singleton_conv rev_append append_Cons append_Nil)
  from assms(3) have "is_digit (last s) \<or> last s = CHR ''-''" by simp
  then have nl: "last s \<notin> hd ` set (map rev space_encodings)" by (rule digit_not_space)
  have "trim_front (map rev space_encodings) (rev s) = rev s"
    unfolding r by (rule trim_front_keeps[OF space_lasts(1) nl])
  then have "TrimRightSpace s = s" by (simp add: TrimRightSpace_def)
  with l show ?thesis by (simp add: TrimSpace_def)
qed

lemma Itoa_shape:
  "Itoa n \<noteq> [] \<and> (is_digit (hd (Itoa n)) \<or> hd (Itoa n) = CHR ''-'') \<and> is_digit (last (Itoa n))"
proof (cases "n < 0")
  case True
  then have "0 \<le> - n" by simp
  from decimal_shape[OF this] True show ?thesis
    by (simp add: Itoa_def)
next
  case False
  then have "0 \<le> n" by simp
  from decimal_shape[OF this] False show ?thesis
    by (simp add: Itoa_def)
qed

lemma Atoi_Itoa:
  assumes "- (2 ^ 63) \<le> n" "n < 2 ^ 63"
  shows "Atoi (Itoa n) = Inr n"
proof (cases "n < 0")
  case True
  with assms have p: "0 \<le> - n" "- n < 2 ^ 64" by simp_all
  from decimal_shape[OF p(1)] have ne: "decimal (- n) \<noteq> []" by simp
  from True assms ne parse_decimal[OF p] show ?thesis
    by (simp add: Atoi_def Itoa_def)
next
  case False
  with assms have p: "0 \<le> n" "n < 2 ^ 64" by simp_all
  from decimal_shape[OF p(1)] have ne: "decimal n \<noteq> []" and dg: "is_digit (hd (decimal n))"
    by simp_all
  from digit_not_sign[OF dg] False assms ne parse_decimal[OF p] show ?thesis
    by (simp add: Atoi_def Itoa_def)
qed

lemma Atoi_TrimSpace_Itoa:
  "- (2 ^ 63) \<le> n \<Longrightarrow> n < 2 ^ 63 \<Longrightarrow> Atoi (TrimSpace (Itoa n)) = Inr n"
  using Itoa_shape[of n] by (simp add: TrimSpace_keeps Atoi_Itoa)

subsection \<open>The outcomes of \<open>StartPortForward\<close>\<close>

lemma StartPortForward_unfold:
  "StartPortForward w s n lp rp =
     (case mkdir_err w (filepath_Join [data_home w, ''kargo'']) of
        Some e \<Rightarrow> ((0, Some (Wrapf ''failed to create kargo data directory: '' e)), w)
      | None \<Rightarrow>
         (case spawn w (port_forward_argv s n lp rp) of
            Inl e \<Rightarrow> ((0, Some (Wrapf ''failed to start port-forward: '' e)), w)
          | Inr pid \<Rightarrow>
             (case write_refusal w (PortForwardPIDFile w s n) of
                Some e \<Rightarrow>
                  ((0, Some (Wrapf ''failed to save PID file: '' e)),
                   w\<lparr>procs := procs w - {pid}, signals := signals w @ [(pid, SIGKILL)]\<rparr>)
              | None \<Rightarrow>
                  ((pid, None),
                   w\<lparr>procs := insert pid (procs w),
                     files := (files w)(PortForwardPIDFile w s n \<mapsto> Itoa pid)\<rparr>))))"
  by (simp add: StartPortForward_def Let_def os_MkdirAll_def cmd_Start_def os_WriteFile_def
        Process_Kill_def PortForwardPIDFile_def write_refusal_def
      split: option.splits sum.splits)

lemma StartPortForward_success:
  assumes "fst (StartPortForward w s n lp rp) = (pid, None)"
  shows "mkdir_err w (filepath_Join [data_home w, ''kargo'']) = None \<and>
         spawn w (port_forward_argv s n lp rp) = Inr pid \<and>
         write_refusal w (PortForwardPIDFile w s n) = None \<and>
         snd (StartPortForward w s n lp rp) =
           w\<lparr>procs := insert pid (procs w),
             files := (files w)(PortForwardPIDFile w s n \<mapsto> Itoa pid)\<rparr>"
  using assms by (auto simp add: StartPortForward_unfold split: option.splits sum.splits)

lemma running_after_write:
  assumes wr: "write_refusal w (PortForwardPIDFile w s n) = None"
    and re: "read_err w (PortForwardPIDFile w s n) = None"
    and rng: "- (2 ^ 63) \<le> pid" "pid < 2 ^ 63"
  shows "fst (IsPortForwardRunning
                (w\<lparr>procs := insert pid (procs w),
                   files := (files w)(PortForwardPIDFile w s n \<mapsto> Itoa pid)\<rparr>) s n) =
           (True, pid, None)"
proof -
  let ?pf = "PortForwardPIDFile w s n"
  let ?w' = "w\<lparr>procs := insert pid (procs w), files := (files w)(?pf \<mapsto> Itoa pid)\<rparr>"
  have pf': "PortForwardPIDFile ?w' s n = ?pf"
    by (simp add: PortForwardPIDFile_def)
  from wr have pe: "path_err w ?pf = None"
    by (simp add: write_refusal_def split: option.splits)
  from pe re have rd: "os_ReadFile ?w' ?pf = Inr (Itoa pid)"
    by (simp add: os_ReadFile_def)
  from read_ok_exists[OF rd] rd Atoi_TrimSpace_Itoa[OF rng] show ?thesis
    by (simp add: IsPortForwardRunning_unfold pf')
qed



text \<open>
  Claim C8. What \<open>StartPortForward\<close> returns does not depend on the files present, so
  not on any PID file of the pair. When a session of the pair is running as process
  \<open>old\<close> and a new call succeeds with a new process \<open>pid\<close>, the PID file afterwards
  holds \<open>pid\<close>, process \<open>old\<close> is still alive, and the status check reports \<open>pid\<close>:
  nothing records \<open>old\<close> any more.
\<close>

theorem StartPortForward_overwrites_pidfile:
  "fst (StartPortForward (w\<lparr>files := f\<rparr>) service namespace localPort remotePort) =
     fst (StartPortForward w service namespace localPort remotePort) \<and>
   (fst (IsPortForwardRunning w service namespace) = (True, old, None) \<and>
    fst (StartPortForward w service namespace localPort remotePort) = (pid, None) \<and>
    pid \<notin> procs w \<longrightarrow>
      files (snd (StartPortForward w service namespace localPort remotePort))
            (PortForwardPIDFile w service namespace) = Some (Itoa pid) \<and>
      old \<in> procs (snd (StartPortForward w service namespace localPort remotePort)) \<and>
      old \<noteq> pid \<and>
      (- (2 ^ 63) \<le> pid \<and> pid < 2 ^ 63 \<longrightarrow>
         fst (IsPortForwardRunning
                (snd (StartPortForward w service namespace localPort remotePort))
                service namespace) = (True, pid, None)))"
proof -
  let ?pf = "PortForwardPIDFile w service namespace"
  let ?r = "StartPortForward w service namespace localPort remotePort"
  have indep: "fst (StartPortForward (w\<lparr>files := f\<rparr>) service namespace localPort remotePort) = fst ?r"
    by (simp add: StartPortForward_unfold PortForwardPIDFile_def write_refusal_def
          split: option.splits sum.splits)
  have over: "files (snd ?r) ?pf = Some (Itoa pid) \<and> old \<in> procs (snd ?r) \<and> old \<noteq> pid \<and>
      (- (2 ^ 63) \<le> pid \<and> pid < 2 ^ 63 \<longrightarrow>
         fst (IsPortForwardRunning (snd ?r) service namespace) = (True, pid, None))"
    if run: "fst (IsPortForwardRunning w service namespace) = (True, old, None)"
      and st: "fst ?r = (pid, None)" and fresh: "pid \<notin> procs w"
  proof -
    note s = StartPortForward_success[OF st]
    from run obtain c where rd: "os_ReadFile w ?pf = Inr c" and alive: "old \<in> procs w"
      by (cases rule: IsPortForwardRunning_cases[of w service namespace]) simp_all
    from rd have re: "read_err w ?pf = None"
      by (simp add: os_ReadFile_def split: option.splits)
    from alive fresh have ne: "old \<noteq> pid" by blast
    from s alive have a': "old \<in> procs (snd ?r)" by simp
    from s have f': "files (snd ?r) ?pf = Some (Itoa pid)" by simp
    from s have wr: "write_refusal w ?pf = None" and
      w': "snd ?r = w\<lparr>procs := insert pid (procs w), files := (files w)(?pf \<mapsto> Itoa pid)\<rparr>"
      by simp_all
    have "- (2 ^ 63) \<le> pid \<and> pid < 2 ^ 63 \<longrightarrow>
         fst (IsPortForwardRunning (snd ?r) service namespace) = (True, pid, None)"
      unfolding w' using running_after_write[OF wr re] by blast
    with f' a' ne show ?thesis by blast
  qed
  from indep over show ?thesis by blast
qed

text \<open>On \<open>world_running\<close> process 4242 is tracked; a second start spawns process 5150.\<close>

theorem StartPortForward_overwrites_pidfile_witness:
  "fst (IsPortForwardRunning world_running ''argocd-server'' ''argocd'') = (True, 4242, None) \<and>
   fst (StartPortForward world_running ''argocd-server'' ''argocd'' 8080 443) = (5150, None) \<and>
   5150 \<notin> procs world_running \<and>
   files world_running (PortForwardPIDFile world_running ''argocd-server'' ''argocd'') = Some ''4242'' \<and>
   files (snd (StartPortForward world_running ''argocd-server'' ''argocd'' 8080 443))
         (PortForwardPIDFile world_running ''argocd-server'' ''argocd'') = Some (Itoa 5150) \<and>
   4242 \<in> procs (snd (StartPortForward world_running ''argocd-server'' ''argocd'' 8080 443)) \<and>
   fst (IsPortForwardRunning (snd (StartPortForward world_running ''argocd-server'' ''argocd'' 8080 443))
          ''argocd-server'' ''argocd'') = (True, 5150, None)"
proof -
  have r: "fst (IsPortForwardRunning world_running ''argocd-server'' ''argocd'') = (True, 4242, None)"
    by code_simp
  have st: "fst (StartPortForward world_running ''argocd-server'' ''argocd'' 8080 443) = (5150, None)"
    by code_simp
  have fr: "5150 \<notin> procs world_running"
    by code_simp
  have before: "files world_running (PortForwardPIDFile world_running ''argocd-server'' ''argocd'') = Some ''4242''"
    by code_simp
  have rng: "- (2 ^ 63) \<le> (5150::int) \<and> (5150::int) < 2 ^ 63"
    by simp
  from StartPortForward_overwrites_pidfile[where w = world_running and service = "''argocd-server''"
      and namespace = "''argocd''" and localPort = 8080 and remotePort = 443 and old = 4242 and pid = 5150]
    r st fr rng
  have "files (snd (StartPortForward world_running ''argocd-server'' ''argocd'' 8080 443))
         (PortForwardPIDFile world_running ''argocd-server'' ''argocd'') = Some (Itoa 5150) \<and>
   4242 \<in> procs (snd (StartPortForward world_running ''argocd-server'' ''argocd'' 8080 443)) \<and>
   fst (IsPortForwardRunning (snd (StartPortForward world_running ''argocd-server'' ''argocd'' 8080 443))
          ''argocd-server'' ''argocd'') = (True, 5150, None)"
    by blast
  with r st fr before show ?thesis by blast
qed

end
